theory Spec2Isabelle
  imports Main
begin

section \<open>Q4D client: message handling, transfer dispatch and reconnection\<close>

text \<open>
  A shallow embedding of \<^verbatim>\<open>app/transfer.py\<close> (class FileTransfer) and
  \<^verbatim>\<open>app/mqtt_handler.py\<close> (class MQTTHandler).

  Conventions of the embedding:
  \<^item> A Python \<^verbatim>\<open>str\<close> is represented by its UTF-8 encoding, a \<open>char list\<close>
    (a \<open>char\<close> is one byte). Splitting at the tab, comparing two strings, concatenating
    them and taking the part after the last slash give the same answers on the encoding
    as on the code points, since a byte below 128 never occurs inside a multi-byte
    UTF-8 sequence.
  \<^item> The operating system, the lftp tool and the MQTT transport are collaborators: what
    they answer is read from an \<open>env\<close> record of oracles, and every call made to them is
    appended to the \<open>calls\<close> trace of the \<open>world\<close>, in order, as a test double would
    record it.
  \<^item> Each logger call appends its level and its message template to \<open>logs\<close>; the
    arguments of logger calls (among them \<^verbatim>\<open>os.getcwd()\<close>) are not modelled.
  \<^item> An exception that the code catches is a branch of the model; one that the code
    lets through is the outcome \<open>Raise\<close>, returned together with the world as it
    was when the exception left.
\<close>

subsection \<open>Strings\<close>

fun str_nat :: "nat \<Rightarrow> string" where
  "str_nat n = (if n < 10 then [''0123456789'' ! n]
                else str_nat (n div 10) @ [''0123456789'' ! (n mod 10)])"

text \<open>\<^verbatim>\<open>str(i)\<close> of a Python int, as an f-string renders it.\<close>

definition str_int :: "int \<Rightarrow> string" where
  "str_int i = (if i < 0 then ''-'' @ str_nat (nat (- i)) else str_nat (nat i))"

text \<open>\<^verbatim>\<open>s.split(c)\<close> for a one-character separator: never the empty list.\<close>

fun split_on :: "char \<Rightarrow> string \<Rightarrow> string list" where
  "split_on c [] = [[]]"
| "split_on c (x # xs) =
    (if x = c then [] # split_on c xs
     else (case split_on c xs of [] \<Rightarrow> [[x]] | y # ys \<Rightarrow> (x # y) # ys))"

definition TAB :: char where
  "TAB = CHR 0x09"

definition DQUOTE :: char where
  "DQUOTE = CHR 0x22"

text \<open>\<^verbatim>\<open>os.path.basename\<close>: what follows the last slash.\<close>

definition basename :: "string \<Rightarrow> string" where
  "basename p = last (split_on CHR ''/'' p)"

subsection \<open>Decoding a payload\<close>

text \<open>
  \<^verbatim>\<open>msg.payload.decode()\<close> is the strict UTF-8 decoder: it raises UnicodeDecodeError
  on a stray continuation byte, a truncated sequence, an overlong form (lead bytes C0 and
  C1, E0 followed by 80..9F, F0 followed by 80..8F), a surrogate (ED followed by A0..BF)
  and a value above U+10FFFF (F4 followed by 90..BF, lead bytes F5..FF).
\<close>

definition is_cont :: "nat \<Rightarrow> bool" where
  "is_cont b = (128 \<le> b \<and> b \<le> 191)"

fun utf8_valid :: "nat list \<Rightarrow> bool" where
  "utf8_valid [] = True"
| "utf8_valid (b # bs) =
    (if b < 128 then utf8_valid bs
     else if 194 \<le> b \<and> b \<le> 223 then
       (case bs of c1 # r \<Rightarrow> is_cont c1 \<and> utf8_valid r | _ \<Rightarrow> False)
     else if 224 \<le> b \<and> b \<le> 239 then
       (case bs of c1 # c2 # r \<Rightarrow>
          (if b = 224 then 160 \<le> c1 \<and> c1 \<le> 191
           else if b = 237 then 128 \<le> c1 \<and> c1 \<le> 159
           else is_cont c1) \<and> is_cont c2 \<and> utf8_valid r
        | _ \<Rightarrow> False)
     else if 240 \<le> b \<and> b \<le> 244 then
       (case bs of c1 # c2 # c3 # r \<Rightarrow>
          (if b = 240 then 144 \<le> c1 \<and> c1 \<le> 191
           else if b = 244 then 128 \<le> c1 \<and> c1 \<le> 143
           else is_cont c1) \<and> is_cont c2 \<and> is_cont c3 \<and> utf8_valid r
        | _ \<Rightarrow> False)
     else False)"

type_synonym bytes = "char list"

text \<open>\<open>None\<close> is the UnicodeDecodeError; a decoded text keeps its encoding.\<close>

definition decode :: "bytes \<Rightarrow> string option" where
  "decode bs = (if utf8_valid (map of_char bs) then Some bs else None)"

subsection \<open>Data\<close>

text \<open>
  The settings object: the properties of Q4DConfig that the two classes read, each with
  a value (a configuration that lacks one is not modelled).
\<close>

record Q4DConfig =
  bus_host :: string
  bus_port :: int
  user :: string
  pw :: string
  labelling :: bool
  creds :: string
  host :: string
  threads :: int
  segments :: int

record FileTransfer =
  ft_config :: Q4DConfig
  type_to_dir :: "string \<rightharpoonup> string"

record MQTTHandler =
  config :: Q4DConfig
  transfer_handler :: FileTransfer
  queue_channel :: string
  connected :: bool
  running :: bool
  reconnect_delay :: int
  max_reconnect_delay :: int
  current_reconnect_delay :: int

record MQTTMessage =
  topic :: string
  payload :: bytes
  qos :: int
  retain :: bool

definition ACK :: string where
  "ACK = ''DONE''"

definition NACK :: string where
  "NACK = ''NOPE''"

definition LABEL_CHANNEL :: string where
  "LABEL_CHANNEL = ''Label''"

definition HOSTKEYFIX :: string where
  "HOSTKEYFIX = ''set sftp:auto-confirm yes''"

subsection \<open>The collaborators\<close>

datatype level = DEBUG | INFO | WARNING | ERROR

text \<open>A call to a collaborator, with the arguments the code passes.\<close>

datatype call =
    Isdir string
  | Chdir string
  | Which string
  | Run "string list"
  | Chmod string nat
  | Sleep int
  | Connect string int int
  | Subscribe string int
  | Publish string string int

text \<open>
  What \<^verbatim>\<open>subprocess.run(cmd, capture_output=True, text=True, check=True)\<close> does:
  the process ends with a return code, stdout and stderr (a nonzero code is the
  CalledProcessError), or the call raises something else (an OSError when the process
  cannot be started, a ValueError, a UnicodeDecodeError on its output).
\<close>

datatype run_result = Exited int string string | NotCompleted

record env =
  lookup_dir :: "string \<Rightarrow> string \<Rightarrow> string option"
  chdir_denied :: "string \<Rightarrow> bool"
  which :: "string \<Rightarrow> string option"
  run :: "string list \<Rightarrow> run_result"
  chmod_denied :: "string \<Rightarrow> string \<Rightarrow> bool"
  connect_raises :: "nat \<Rightarrow> bool"
  subscribe_result :: "string \<Rightarrow> int"
  publish_result :: "string \<Rightarrow> string \<Rightarrow> int option"

text \<open>
  \<^item> \<open>lookup_dir e d p\<close>: the directory that path \<open>p\<close> names when resolved from the
    working directory \<open>d\<close>; \<open>None\<close> when \<open>p\<close> names no directory.
  \<^item> \<open>chdir_denied e d\<close>: \<^verbatim>\<open>os.chdir\<close> into directory \<open>d\<close> raises OSError.
  \<^item> \<open>which e name\<close>: \<^verbatim>\<open>shutil.which(name)\<close>.
  \<^item> \<open>chmod_denied e d p\<close>: \<^verbatim>\<open>os.chmod(p, ...)\<close> raises OSError in directory \<open>d\<close>.
  \<^item> \<open>connect_raises e n\<close>: the connect call made after \<open>n\<close> earlier ones raises.
  \<^item> \<open>subscribe_result e t\<close>: the result code of \<^verbatim>\<open>client.subscribe(t, qos=2)\<close>.
  \<^item> \<open>publish_result e t p\<close>: the \<^verbatim>\<open>rc\<close> of \<^verbatim>\<open>client.publish(t, p, qos=2)\<close>;
    \<open>None\<close> when the call raises.
\<close>

record world =
  cwd :: string
  calls :: "call list"
  logs :: "(level \<times> string) list"

definition logm :: "level \<Rightarrow> string \<Rightarrow> world \<Rightarrow> world" where
  "logm l m w = w\<lparr>logs := logs w @ [(l, m)]\<rparr>"

definition called :: "call \<Rightarrow> world \<Rightarrow> world" where
  "called c w = w\<lparr>calls := calls w @ [c]\<rparr>"

datatype exn = UnicodeDecodeError | RunFailure

datatype 'a outcome = Return 'a | Raise exn

text \<open>The commands given to \<^verbatim>\<open>subprocess.run\<close>, in trace order.\<close>

fun runs :: "call list \<Rightarrow> string list list" where
  "runs [] = []"
| "runs (Run cmd # cs) = cmd # runs cs"
| "runs (c # cs) = runs cs"

text \<open>The messages given to \<^verbatim>\<open>client.publish\<close>, in trace order.\<close>

fun publishes :: "call list \<Rightarrow> (string \<times> string \<times> int) list" where
  "publishes [] = []"
| "publishes (Publish t p q # cs) = (t, p, q) # publishes cs"
| "publishes (c # cs) = publishes cs"

text \<open>The waits given to \<^verbatim>\<open>time.sleep\<close>, in trace order.\<close>

fun sleeps :: "call list \<Rightarrow> int list" where
  "sleeps [] = []"
| "sleeps (Sleep d # cs) = d # sleeps cs"
| "sleeps (c # cs) = sleeps cs"

fun chdirs :: "call list \<Rightarrow> string list" where
  "chdirs [] = []"
| "chdirs (Chdir d # cs) = d # chdirs cs"
| "chdirs (c # cs) = chdirs cs"

fun n_connects :: "call list \<Rightarrow> nat" where
  "n_connects [] = 0"
| "n_connects (Connect h p k # cs) = Suc (n_connects cs)"
| "n_connects (c # cs) = n_connects cs"

subsection \<open>FileTransfer.transfer\_file\<close>

text \<open>
  Lines 33 to 47: the lookup of the typecode. \<^verbatim>\<open>not dest_dir\<close> holds for a missing
  key (\<^verbatim>\<open>None\<close>) and for an empty string. \<open>None\<close> in the result is the
  \<^verbatim>\<open>return False\<close> of the branch without an ERR entry.
\<close>

definition resolve_dest_dir :: "FileTransfer \<Rightarrow> string \<Rightarrow> world \<Rightarrow> string option \<times> world" where
  "resolve_dest_dir ft typecode w0 =
    (let dest_dir = type_to_dir ft typecode;
         w1 = logm DEBUG ''Type mapping lookup - typecode: %s -> dest_dir: %s'' w0
     in if dest_dir = None \<or> dest_dir = Some [] then
          (case type_to_dir ft ''ERR'' of
             Some err_dir \<Rightarrow>
               (Some err_dir,
                logm DEBUG ''Using ERR fallback directory: %s''
                  (logm WARNING ''Unknown typecode: %s. Falling back to ERR: %s'' w1))
           | None \<Rightarrow>
               (None,
                logm ERROR ''Unknown typecode: %s and no ERR fallback available. Available types: %s'' w1))
        else (dest_dir, w1))"

definition mirror_cmd :: "Q4DConfig \<Rightarrow> string \<Rightarrow> string list" where
  "mirror_cmd cfg target =
    [''lftp'', ''-u'', creds cfg, ''sftp://'' @ host cfg @ ''/'', ''-e'',
     HOSTKEYFIX @ ''; mirror -c  --parallel='' @ str_int (threads cfg)
       @ '' --use-pget-n='' @ str_int (segments cfg)
       @ '' '' @ [DQUOTE] @ target @ [DQUOTE] @ '' ;quit'']"

definition pget_cmd :: "Q4DConfig \<Rightarrow> string \<Rightarrow> string list" where
  "pget_cmd cfg target =
    [''lftp'', ''-u'', creds cfg, ''sftp://'' @ host cfg @ ''/'', ''-e'',
     HOSTKEYFIX @ ''; pget -n '' @ str_int (threads cfg)
       @ '' '' @ [DQUOTE] @ target @ [DQUOTE] @ '' ;quit'']"

text \<open>The two debug lines that print a captured stream when it is not empty.\<close>

definition log_streams :: "string \<Rightarrow> string \<Rightarrow> string \<Rightarrow> string \<Rightarrow> world \<Rightarrow> world" where
  "log_streams m_out m_err out err w =
    (let w1 = (if out \<noteq> [] then logm DEBUG m_out w else w)
     in if err \<noteq> [] then logm DEBUG m_err w1 else w1)"

text \<open>
  Lines 70 to 120: the mirror invocation and, in the handler of its
  CalledProcessError, the pget invocation. The result is the value of
  \<^verbatim>\<open>transferred\<close>.
\<close>

definition run_lftp :: "env \<Rightarrow> Q4DConfig \<Rightarrow> string \<Rightarrow> world \<Rightarrow> bool outcome \<times> world" where
  "run_lftp e cfg target w0 =
    (let w1 = logm INFO ''Running mirror command in %s: %s'' w0;
         w2 = logm DEBUG ''Mirror command details - parallel: %d, segments: %d'' w1;
         w3 = called (Run (mirror_cmd cfg target)) w2
     in case run e (mirror_cmd cfg target) of
          NotCompleted \<Rightarrow> (Raise RunFailure, w3)
        | Exited rc out err \<Rightarrow>
            if rc = 0 then
              (Return True,
               log_streams ''Mirror stdout: %s'' ''Mirror stderr: %s'' out err
                 (logm DEBUG ''Mirror command completed successfully'' w3))
            else
              (let w4 = logm DEBUG ''Mirror failed with return code %d'' w3;
                   w5 = logm DEBUG ''Mirror stderr: %s'' w4;
                   w6 = logm DEBUG ''Mirror stdout: %s'' w5;
                   w7 = logm INFO ''Mirror failed, trying pget command in %s: %s'' w6;
                   w8 = logm DEBUG ''Pget command details - threads: %d'' w7;
                   w9 = called (Run (pget_cmd cfg target)) w8
               in case run e (pget_cmd cfg target) of
                    NotCompleted \<Rightarrow> (Raise RunFailure, w9)
                  | Exited prc pout perr \<Rightarrow>
                      if prc = 0 then
                        (Return True,
                         log_streams ''Pget stdout: %s'' ''Pget stderr: %s'' pout perr
                           (logm DEBUG ''Pget command completed successfully'' w9))
                      else
                        (Return False,
                         logm DEBUG ''Pget stdout: %s''
                           (logm DEBUG ''Pget stderr: %s''
                              (logm DEBUG ''Pget also failed with return code %d'' w9)))))"

text \<open>
  Lines 122 to 138: the chmod of the basename, the closing log lines, the result. The
  mode \<^verbatim>\<open>0o666\<close> is 438.
\<close>

definition finish_transfer :: "env \<Rightarrow> string \<Rightarrow> bool \<Rightarrow> world \<Rightarrow> bool outcome \<times> world" where
  "finish_transfer e target transferred w0 =
    (let base = basename target;
         w1 = logm DEBUG ''Setting permissions on: %s'' w0;
         w2 = called (Chmod base 438) w1;
         w3 = (if chmod_denied e (cwd w2) base
               then logm WARNING ''Could not chmod %s: %s'' w2
               else logm DEBUG ''Successfully set permissions 666 on %s'' w2);
         w4 = (if transferred
               then logm DEBUG ''Transfer success''
                      (logm INFO ''Transfer of %s to %s completed successfully'' w3)
               else logm ERROR ''Transfer of %s to %s failed'' w3)
     in (Return transferred, logm DEBUG ''Transfer function returning: %s'' w4))"

text \<open>
  \<^verbatim>\<open>os.chdir(dest_dir)\<close> inside its \<^verbatim>\<open>try\<close>: \<open>False\<close> is the OSError branch.
\<close>

definition chdir :: "env \<Rightarrow> string \<Rightarrow> world \<Rightarrow> bool \<times> world" where
  "chdir e p w0 =
    (let w1 = called (Chdir p) w0
     in case lookup_dir e (cwd w0) p of
          None \<Rightarrow> (False, w1)
        | Some d \<Rightarrow> if chdir_denied e d then (False, w1) else (True, w1\<lparr>cwd := d\<rparr>))"

definition transfer_file ::
    "env \<Rightarrow> FileTransfer \<Rightarrow> string \<Rightarrow> string \<Rightarrow> string \<Rightarrow> world \<Rightarrow> bool outcome \<times> world" where
  "transfer_file e ft target hash typecode w0 =
    (case resolve_dest_dir ft typecode
            (logm DEBUG ''Starting transfer - target: %s, hash: %s, typecode: %s'' w0) of
       (None, w1) \<Rightarrow> (Return False, w1)
     | (Some dest_dir, w1) \<Rightarrow>
         (let w2 = called (Isdir dest_dir)
                     (logm DEBUG ''Checking if destination directory exists: %s'' w1)
          in if lookup_dir e (cwd w2) dest_dir = None then
               (Return False,
                logm ERROR ''Destination directory does not exist: %s (typecode: %s)'' w2)
             else
               (case chdir e dest_dir (logm DEBUG ''Current working directory: %s'' w2) of
                  (False, w3) \<Rightarrow>
                    (Return False, logm ERROR ''Failed to change directory to %s: %s'' w3)
                | (True, w3) \<Rightarrow>
                    (let w4 = called (Which ''lftp'')
                                (logm DEBUG ''Changed to destination directory: %s'' w3);
                         lftp_path = which e ''lftp'';
                         w5 = logm DEBUG ''LFTP path: %s'' w4
                     in if lftp_path = None \<or> lftp_path = Some [] then
                          (Return False,
                           logm ERROR ''lftp is not installed or not in PATH. Cannot perform transfer.'' w5)
                        else
                          (case run_lftp e (ft_config ft) target w5 of
                             (Raise x, w6) \<Rightarrow> (Raise x, w6)
                           | (Return transferred, w6) \<Rightarrow>
                               finish_transfer e target transferred w6)))))"

subsection \<open>MQTTHandler\<close>

text \<open>The fields as \<^verbatim>\<open>__init__\<close> sets them.\<close>

definition MQTTHandler_init :: "Q4DConfig \<Rightarrow> FileTransfer \<Rightarrow> MQTTHandler" where
  "MQTTHandler_init cfg th =
    \<lparr>config = cfg, transfer_handler = th, queue_channel = ''Down'',
     connected = False, running = False,
     reconnect_delay = 5, max_reconnect_delay = 60, current_reconnect_delay = 5\<rparr>"

text \<open>
  \<^verbatim>\<open>_connect_with_retry\<close>. The loop runs for as long as connecting raises, so it
  need not end: \<open>None\<close> is the run that never returns. The flags
  \<^verbatim>\<open>running\<close> and \<^verbatim>\<open>connected\<close> are those of the handler the loop holds; the
  supervising loop of \<^verbatim>\<open>start()\<close> and the transport's own thread are not modelled.
\<close>

partial_function (option) connect_with_retry ::
    "env \<Rightarrow> MQTTHandler \<Rightarrow> world \<Rightarrow> (MQTTHandler \<times> world) option" where
  "connect_with_retry e h w0 =
    (if running h \<and> \<not> connected h then
       (let w1 = logm DEBUG ''Attempting MQTT connection to %s:%s'' w0;
            w2 = called (Connect (bus_host (config h)) (bus_port (config h)) 60) w1
        in if connect_raises e (n_connects (calls w1)) then
             (let w3 = logm ERROR ''Failed to connect to MQTT broker: %s'' w2;
                  w4 = logm DEBUG ''Connection attempt failed, waiting %d seconds before retry'' w3;
                  w5 = called (Sleep (current_reconnect_delay h)) w4;
                  h' = h\<lparr>current_reconnect_delay :=
                           min (current_reconnect_delay h * 2) (max_reconnect_delay h)\<rparr>;
                  w6 = logm DEBUG ''Next reconnect delay: %d seconds'' w5
              in connect_with_retry e h' w6)
           else Some (h, w2))
     else Some (h, w0))"

definition on_connect :: "env \<Rightarrow> MQTTHandler \<Rightarrow> int \<Rightarrow> world \<Rightarrow> MQTTHandler \<times> world" where
  "on_connect e h rc w0 =
    (if rc = 0 then
       (let h' = h\<lparr>connected := True, current_reconnect_delay := reconnect_delay h\<rparr>;
            w1 = logm INFO ''Connected to MQTT broker. Subscribing to %s'' w0;
            w2 = logm DEBUG ''Connection flags: %s'' w1;
            w3 = called (Subscribe (queue_channel h') 2) w2
        in if subscribe_result e (queue_channel h') = 0
           then (h', logm DEBUG ''Subscription request sent for %s (message ID: %d)'' w3)
           else (h', logm ERROR ''Failed to subscribe to %s, error code: %d'' w3))
     else (h\<lparr>connected := False\<rparr>, logm ERROR ''Failed to connect to MQTT broker: %s'' w0))"

definition on_disconnect :: "MQTTHandler \<Rightarrow> int \<Rightarrow> world \<Rightarrow> MQTTHandler \<times> world" where
  "on_disconnect h rc w0 =
    (let h' = h\<lparr>connected := False\<rparr>
     in if rc = 0 then (h', logm INFO ''MQTT client disconnected normally'' w0)
        else
          (let w1 = logm WARNING ''Unexpected MQTT disconnection: %s (code: %d)'' w0
           in (h', if running h' then logm INFO ''Will attempt to reconnect...'' w1 else w1)))"

text \<open>
  \<^verbatim>\<open>publish_label_event\<close> has no \<^verbatim>\<open>return\<close> with a value: it gives \<^verbatim>\<open>None\<close>
  on every path, here the unit value.
\<close>

definition publish_label_event ::
    "env \<Rightarrow> MQTTHandler \<Rightarrow> string \<Rightarrow> bool \<Rightarrow> world \<Rightarrow> unit \<times> world" where
  "publish_label_event e h hash success w0 =
    (if \<not> connected h then
       ((), logm WARNING ''Cannot publish label event - MQTT not connected'' w0)
     else
       (let label = (if success then ACK else NACK);
            event = hash @ [TAB] @ label;
            w1 = logm INFO ''Publishing label event: %s to %s'' w0;
            w2 = logm DEBUG ''Label event details - hash: %s, success: %s, label: %s'' w1;
            w3 = called (Publish LABEL_CHANNEL event 2) w2
        in case publish_result e LABEL_CHANNEL event of
             None \<Rightarrow>
               ((), logm DEBUG ''Publish exception details:''
                      (logm ERROR ''Exception while publishing label event: %s'' w3))
           | Some rc \<Rightarrow>
               (let w4 = logm DEBUG ''Publish result - message ID: %d, return code: %d'' w3
                in if rc = 0 then ((), logm DEBUG ''Label event queued for publishing'' w4)
                   else ((), logm WARNING ''Failed to publish label event, return code: %d'' w4))))"

definition on_message :: "env \<Rightarrow> MQTTHandler \<Rightarrow> MQTTMessage \<Rightarrow> world \<Rightarrow> unit outcome \<times> world" where
  "on_message e h msg w0 =
    (case decode (payload msg) of
       None \<Rightarrow> (Raise UnicodeDecodeError, w0)
     | Some event_str \<Rightarrow>
         (let w1 = logm INFO ''Event received: %s'' w0;
              w2 = logm DEBUG ''Message topic: %s, QoS: %d, retain: %s'' w1;
              event = split_on TAB event_str
          in if length event < 3 then
               (Return (),
                logm DEBUG ''Expected at least 3 fields, got %d: %s''
                  (logm ERROR ''Malformed event: %s'' w2))
             else
               (let filename = event ! 0;
                    hash = event ! 1;
                    typecode = event ! 2;
                    w3 = logm DEBUG ''Parsed event - filename: %s, hash: %s, typecode: %s'' w2;
                    w4 = (if length event > 3
                          then logm DEBUG ''Additional event fields ignored: %s'' w3 else w3);
                    w5 = logm DEBUG ''Starting file transfer'' w4
                in case transfer_file e (transfer_handler h) filename hash typecode w5 of
                     (Raise x, w6) \<Rightarrow> (Raise x, w6)
                   | (Return success, w6) \<Rightarrow>
                       (let w7 = logm DEBUG ''Transfer completed with success: %s'' w6
                        in if labelling (config h) \<and> hash \<noteq> ''NotUsed'' then
                             (Return (),
                              snd (publish_label_event e h hash success
                                     (logm DEBUG ''Labelling enabled and hash is not 'NotUsed', publishing label event'' w7)))
                           else
                             (Return (),
                              logm DEBUG ''Skipping label event - labelling: %s, hash: %s'' w7)))))"

subsection \<open>Reading a run result\<close>

fun exited_zero :: "run_result \<Rightarrow> bool" where
  "exited_zero (Exited rc out err) = (rc = 0)"
| "exited_zero NotCompleted = False"

fun exited_nonzero :: "run_result \<Rightarrow> bool" where
  "exited_nonzero (Exited rc out err) = (rc \<noteq> 0)"
| "exited_nonzero NotCompleted = False"

subsection \<open>The fixtures of the test suite\<close>

text \<open>
  The settings and the mapping of \<^verbatim>\<open>setup_method\<close> in tests/test\_transfer.py and
  tests/test\_mqtt\_handler.py, and collaborators that answer as the mocks there do.
\<close>

definition test_config :: Q4DConfig where
  "test_config =
    \<lparr>bus_host = ''test.mqtt.com'', bus_port = 1883, user = ''testuser'', pw = ''testpass'',
     labelling = True, creds = ''testuser:testpass'', host = ''test.sftp.com'',
     threads = 4, segments = 8\<rparr>"

definition test_type_mapping :: "string \<rightharpoonup> string" where
  "test_type_mapping =
    [''MOV'' \<mapsto> ''/downloads/movies'', ''TV'' \<mapsto> ''/downloads/tv'',
     ''ERR'' \<mapsto> ''/downloads/errors'']"

definition type_mapping_no_err :: "string \<rightharpoonup> string" where
  "type_mapping_no_err = [''MOV'' \<mapsto> ''/downloads/movies'', ''TV'' \<mapsto> ''/downloads/tv'']"

definition test_transfer :: FileTransfer where
  "test_transfer = \<lparr>ft_config = test_config, type_to_dir = test_type_mapping\<rparr>"

definition test_transfer_no_err :: FileTransfer where
  "test_transfer_no_err = \<lparr>ft_config = test_config, type_to_dir = type_mapping_no_err\<rparr>"

text \<open>Every directory exists, lftp is installed, every command succeeds.\<close>

definition test_env :: env where
  "test_env =
    \<lparr>lookup_dir = (\<lambda>d p. Some p), chdir_denied = (\<lambda>d. False),
     which = (\<lambda>n. Some ''/usr/bin/lftp''),
     run = (\<lambda>cmd. Exited 0 ''Success'' []),
     chmod_denied = (\<lambda>d p. False), connect_raises = (\<lambda>n. n < 3),
     subscribe_result = (\<lambda>t. 0), publish_result = (\<lambda>t p. Some 0)\<rparr>"

text \<open>The mirror of \<^verbatim>\<open>/remote/movie.mkv\<close> fails, every other command succeeds.\<close>

definition fallback_env :: env where
  "fallback_env =
    test_env\<lparr>run := (\<lambda>cmd. if cmd = mirror_cmd test_config ''/remote/movie.mkv''
                          then Exited 1 ''Mirror failed'' [] else Exited 0 ''Success'' [])\<rparr>"

text \<open>Every command fails with return code 1.\<close>

definition both_fail_env :: env where
  "both_fail_env = test_env\<lparr>run := (\<lambda>cmd. Exited 1 ''failed'' [])\<rparr>"

definition world0 :: world where
  "world0 = \<lparr>cwd = ''/opt/q4d'', calls = [], logs = []\<rparr>"



text \<open>A handler after \<^verbatim>\<open>start()\<close> has set \<^verbatim>\<open>running\<close>, before and after it connected.\<close>

definition test_handler :: MQTTHandler where
  "test_handler = (MQTTHandler_init test_config test_transfer)\<lparr>running := True\<rparr>"

definition connected_handler :: MQTTHandler where
  "connected_handler = test_handler\<lparr>connected := True\<rparr>"

definition msg_of :: "bytes \<Rightarrow> MQTTMessage" where
  "msg_of p = \<lparr>topic = ''Down'', payload = p, qos = 2, retain = False\<rparr>"

definition valid_event :: bytes where
  "valid_event = ''test.mkv'' @ [TAB] @ ''hash123'' @ [TAB] @ ''MOV''"

definition notused_event :: bytes where
  "notused_event = ''test.mkv'' @ [TAB] @ ''NotUsed'' @ [TAB] @ ''MOV''"

definition malformed_event :: bytes where
  "malformed_event = ''incomplete'' @ [TAB] @ ''event''"

section \<open>Properties\<close>

subsection \<open>The trace and the frame of each step\<close>

lemma logm_frame [simp]:
  "cwd (logm l m w) = cwd w" "calls (logm l m w) = calls w"
  "logs (logm l m w) = logs w @ [(l, m)]"
  by (simp_all add: logm_def)

lemma called_frame [simp]:
  "cwd (called c w) = cwd w" "calls (called c w) = calls w @ [c]"
  "logs (called c w) = logs w"
  by (simp_all add: called_def)

lemma log_streams_frame [simp]:
  "cwd (log_streams a b out err w) = cwd w" "calls (log_streams a b out err w) = calls w"
  by (simp_all add: log_streams_def Let_def)

lemma runs_append [simp]: "runs (xs @ ys) = runs xs @ runs ys"
  by (induction xs rule: runs.induct) simp_all

lemma publishes_append [simp]: "publishes (xs @ ys) = publishes xs @ publishes ys"
  by (induction xs rule: publishes.induct) simp_all

lemma sleeps_append [simp]: "sleeps (xs @ ys) = sleeps xs @ sleeps ys"
  by (induction xs rule: sleeps.induct) simp_all

lemma chdirs_append [simp]: "chdirs (xs @ ys) = chdirs xs @ chdirs ys"
  by (induction xs rule: chdirs.induct) simp_all

lemma n_connects_append [simp]: "n_connects (xs @ ys) = n_connects xs + n_connects ys"
  by (induction xs rule: n_connects.induct) simp_all

lemma resolve_frame [simp]:
  "cwd (snd (resolve_dest_dir ft tc w)) = cwd w"
  "calls (snd (resolve_dest_dir ft tc w)) = calls w"
  by (simp_all add: resolve_dest_dir_def Let_def split: option.splits)

text \<open>The lookup reads the mapping only: its answer does not depend on the world.\<close>

lemma resolve_fst_indep: "fst (resolve_dest_dir ft tc w) = fst (resolve_dest_dir ft tc w')"
  by (simp add: resolve_dest_dir_def Let_def split: option.splits)

lemma resolve_cases:
  obtains (unresolved) w1 where
      "resolve_dest_dir ft tc w = (None, w1)" "cwd w1 = cwd w" "calls w1 = calls w"
  | (resolved) d w1 where
      "resolve_dest_dir ft tc w = (Some d, w1)" "cwd w1 = cwd w" "calls w1 = calls w"
proof (cases "resolve_dest_dir ft tc w")
  case (Pair r w1)
  then have "cwd w1 = cwd w" "calls w1 = calls w"
    using resolve_frame[of ft tc w] by simp_all
  with Pair show ?thesis
    by (cases r) (auto intro: unresolved resolved)
qed

lemma run_lftp_frame [simp]: "cwd (snd (run_lftp e cfg target w)) = cwd w"
  by (simp add: run_lftp_def Let_def split: run_result.splits)

lemma finish_frame [simp]:
  "cwd (snd (finish_transfer e target t w)) = cwd w"
  "fst (finish_transfer e target t w) = Return t"
  "calls (snd (finish_transfer e target t w)) = calls w @ [Chmod (basename target) 438]"
  by (simp_all add: finish_transfer_def Let_def)

lemma run_lftp_calls:
  "calls (snd (run_lftp e cfg target w)) =
     calls w @ (if exited_nonzero (run e (mirror_cmd cfg target))
                then [Run (mirror_cmd cfg target), Run (pget_cmd cfg target)]
                else [Run (mirror_cmd cfg target)])"
  by (simp add: run_lftp_def Let_def split: run_result.splits)

lemma run_lftp_result:
  "fst (run_lftp e cfg target w) =
     (case run e (mirror_cmd cfg target) of
        NotCompleted \<Rightarrow> Raise RunFailure
      | Exited rc out err \<Rightarrow>
          if rc = 0 then Return True
          else (case run e (pget_cmd cfg target) of
                  NotCompleted \<Rightarrow> Raise RunFailure
                | Exited prc pout perr \<Rightarrow> Return (prc = 0)))"
  by (simp add: run_lftp_def Let_def split: run_result.splits)

lemma run_lftp_pair:
  assumes "run_lftp e cfg target v = (r, v')"
  shows "cwd v' = cwd v \<and> chdirs (calls v') = chdirs (calls v)"
  using run_lftp_frame[of e cfg target v] run_lftp_calls[of e cfg target v] assms by simp

text \<open>
  The transfer-attempt stage: once the typecode is resolved, the directory exists, the
  chdir succeeded and lftp is found, three calls have been made, the working directory is
  the destination, and what remains is the two commands and the chmod.
\<close>

lemma transfer_file_attempt:
  assumes "fst (resolve_dest_dir ft typecode w) = Some dest_dir"
    and "lookup_dir e (cwd w) dest_dir = Some d" and "\<not> chdir_denied e d"
    and "which e ''lftp'' = Some p" and "p \<noteq> []"
  obtains w5 where "cwd w5 = d"
    "calls w5 = calls w @ [Isdir dest_dir, Chdir dest_dir, Which ''lftp'']"
    "transfer_file e ft target hash typecode w =
      (case run_lftp e (ft_config ft) target w5 of
         (Raise x, w6) \<Rightarrow> (Raise x, w6)
       | (Return transferred, w6) \<Rightarrow> finish_transfer e target transferred w6)"
proof -
  let ?w = "logm DEBUG ''Starting transfer - target: %s, hash: %s, typecode: %s'' w"
  from assms(1) resolve_fst_indep[of ft typecode w ?w]
  have "fst (resolve_dest_dir ft typecode ?w) = Some dest_dir" by simp
  then obtain w1 where r: "resolve_dest_dir ft typecode ?w = (Some dest_dir, w1)"
    and f: "cwd w1 = cwd w" "calls w1 = calls w"
    by (cases rule: resolve_cases[of ft typecode ?w]) auto
  show ?thesis
    by (rule that[of "logm DEBUG ''LFTP path: %s'' (called (Which ''lftp'')
           (logm DEBUG ''Changed to destination directory: %s''
             ((called (Chdir dest_dir) (logm DEBUG ''Current working directory: %s''
                (called (Isdir dest_dir)
                   (logm DEBUG ''Checking if destination directory exists: %s'' w1))))\<lparr>cwd := d\<rparr>)))"])
      (simp_all add: transfer_file_def r f assms chdir_def Let_def)
qed

lemma test_mirror_ne_pget:
  "mirror_cmd test_config ''/remote/movie.mkv'' \<noteq> pget_cmd test_config ''/remote/movie.mkv''"
  by (simp add: mirror_cmd_def pget_cmd_def HOSTKEYFIX_def)

lemma test_resolve_MOV:
  "fst (resolve_dest_dir test_transfer ''MOV'' world0) = Some ''/downloads/movies''"
  by (simp add: resolve_dest_dir_def test_transfer_def test_type_mapping_def)

lemma transfer_file_first_call:
  assumes "fst (resolve_dest_dir ft typecode w) = Some dest_dir"
  shows "\<exists>cs. calls (snd (transfer_file e ft target hash typecode w)) =
               calls w @ Isdir dest_dir # cs"
proof -
  let ?w = "logm DEBUG ''Starting transfer - target: %s, hash: %s, typecode: %s'' w"
  from assms resolve_fst_indep[of ft typecode w ?w]
  have "fst (resolve_dest_dir ft typecode ?w) = Some dest_dir" by simp
  then obtain w1 where r: "resolve_dest_dir ft typecode ?w = (Some dest_dir, w1)"
    and f: "cwd w1 = cwd w" "calls w1 = calls w"
    by (cases rule: resolve_cases[of ft typecode ?w]) auto
  have rl: "\<exists>cs. calls v' = calls v @ cs" if "run_lftp e cfg t v = (r, v')" for cfg t v r v'
    using run_lftp_calls[of e cfg t v] that by simp
  show ?thesis
    by (auto simp: transfer_file_def r f chdir_def Let_def
          split: prod.splits outcome.splits option.splits dest!: rl)
qed

text \<open>A transfer publishes nothing.\<close>

lemma run_lftp_publishes:
  assumes "run_lftp e cfg t v = (r, v')"
  shows "publishes (calls v') = publishes (calls v)"
  using run_lftp_calls[of e cfg t v] assms by simp

lemma transfer_file_publishes [simp]:
  "publishes (calls (snd (transfer_file e ft target hash typecode w))) = publishes (calls w)"
proof (cases rule: resolve_cases[of ft typecode
    "logm DEBUG ''Starting transfer - target: %s, hash: %s, typecode: %s'' w"])
  case (unresolved w1)
  then show ?thesis by (simp add: transfer_file_def)
next
  case (resolved d w1)
  then show ?thesis
    by (auto simp: transfer_file_def chdir_def Let_def
          split: prod.splits outcome.splits option.splits dest!: run_lftp_publishes)
qed

lemma publish_label_event_calls:
  "calls (snd (publish_label_event e h hash success w)) =
     calls w @ (if connected h
                then [Publish LABEL_CHANNEL (hash @ [TAB] @ (if success then ACK else NACK)) 2]
                else [])"
  by (simp add: publish_label_event_def Let_def split: option.splits)

text \<open>The three payloads of the fixtures.\<close>

lemma decode_malformed: "decode malformed_event = Some malformed_event"
  by (simp add: decode_def malformed_event_def TAB_def)

lemma decode_valid: "decode valid_event = Some valid_event"
  by (simp add: decode_def valid_event_def TAB_def)

lemma decode_notused: "decode notused_event = Some notused_event"
  by (simp add: decode_def notused_event_def TAB_def)

lemma split_valid: "split_on TAB valid_event = [''test.mkv'', ''hash123'', ''MOV'']"
  by (simp add: valid_event_def TAB_def)

lemma split_notused: "split_on TAB notused_event = [''test.mkv'', ''NotUsed'', ''MOV'']"
  by (simp add: notused_event_def TAB_def)

lemma split_malformed: "split_on TAB malformed_event = [''incomplete'', ''event'']"
  by (simp add: malformed_event_def TAB_def)

subsection \<open>The backoff of the retry loop\<close>

text \<open>Doubling a capped delay is capping the doubled delay.\<close>

lemma capped_double:
  fixes c m :: int
  assumes "0 \<le> m"
  shows "min (min (c * 2) m * 2 ^ i) m = min (c * 2 ^ Suc i) m"
proof (cases "c * 2 \<le> m")
  case True
  then show ?thesis by (simp add: min_def mult.assoc)
next
  case False
  then have lt: "m < c * 2" by simp
  have one: "(1::int) \<le> 2 ^ i" by simp
  have "m * 1 \<le> m * 2 ^ i"
    using one assms by (rule mult_left_mono)
  then have a: "m \<le> m * 2 ^ i" by simp
  have c0: "0 \<le> c * 2" using lt assms by linarith
  have "(c * 2) * 1 \<le> (c * 2) * 2 ^ i"
    using one c0 by (rule mult_left_mono)
  then have b: "m \<le> c * 2 ^ Suc i" using lt by (simp add: mult.assoc)
  from lt a b show ?thesis by (simp add: min_def)
qed

lemma upt_Suc_shift: "map f [0..<Suc k] = f 0 # map (\<lambda>i. f (Suc i)) [0..<k]"
  by (simp add: upt_rec[of 0 "Suc k"] map_Suc_upt[symmetric] del: upt_Suc)

text \<open>
  When connecting raises \<open>k\<close> times and then returns, the loop returns; it has slept
  \<open>k\<close> times, the \<open>i\<close>-th time for the delay doubled \<open>i\<close> times and capped, and
  leaves the delay doubled \<open>k\<close> times and capped. By induction on \<open>k\<close>, for every
  handler and world, since each failed attempt changes both.
\<close>

lemma connect_with_retry_backoff:
  assumes "running h" and "\<not> connected h"
    and "\<forall>i<k. connect_raises e (n_connects (calls w) + i)"
    and "\<not> connect_raises e (n_connects (calls w) + k)"
    and "0 \<le> current_reconnect_delay h"
    and "current_reconnect_delay h \<le> max_reconnect_delay h"
  shows "\<exists>w'. connect_with_retry e h w =
                 Some (h\<lparr>current_reconnect_delay :=
                          min (current_reconnect_delay h * 2 ^ k) (max_reconnect_delay h)\<rparr>, w')
             \<and> sleeps (calls w') =
                 sleeps (calls w) @
                 map (\<lambda>i. min (current_reconnect_delay h * 2 ^ i) (max_reconnect_delay h)) [0..<k]"
  using assms
proof (induction k arbitrary: h w)
  case 0
  then show ?case
    by (subst connect_with_retry.simps) (simp add: Let_def min_def)
next
  case (Suc k)
  let ?c = "current_reconnect_delay h" and ?m = "max_reconnect_delay h"
  let ?h = "h\<lparr>current_reconnect_delay := min (?c * 2) ?m\<rparr>"
  let ?w2 = "called (Connect (bus_host (config h)) (bus_port (config h)) 60)
              (logm DEBUG ''Attempting MQTT connection to %s:%s'' w)"
  let ?w = "logm DEBUG ''Next reconnect delay: %d seconds''
             (called (Sleep ?c)
               (logm DEBUG ''Connection attempt failed, waiting %d seconds before retry''
                 (logm ERROR ''Failed to connect to MQTT broker: %s'' ?w2)))"
  have m0: "0 \<le> ?m" using Suc.prems by linarith
  have first: "connect_raises e (n_connects (calls w))"
    using Suc.prems(3) by (metis add.right_neutral zero_less_Suc)
  have step: "connect_with_retry e h w = connect_with_retry e ?h ?w"
    using Suc.prems(1,2) first
    by (subst connect_with_retry.simps) (simp add: Let_def)
  have n: "n_connects (calls ?w) = Suc (n_connects (calls w))" by simp
  have p3: "\<forall>i<k. connect_raises e (n_connects (calls ?w) + i)"
  proof (intro allI impI)
    fix i assume "i < k"
    then have "Suc i < Suc k" by simp
    with Suc.prems(3) have "connect_raises e (n_connects (calls w) + Suc i)" by blast
    then show "connect_raises e (n_connects (calls ?w) + i)" by (simp add: n)
  qed
  have p4: "\<not> connect_raises e (n_connects (calls ?w) + k)"
    using Suc.prems(4) by (simp add: n)
  have p5: "0 \<le> current_reconnect_delay ?h"
    using Suc.prems(5) m0 by simp
  have p6: "current_reconnect_delay ?h \<le> max_reconnect_delay ?h" by simp
  from Suc.IH[of ?h ?w, OF _ _ p3 p4 p5 p6] Suc.prems(1,2)
  obtain w' where r: "connect_with_retry e ?h ?w =
        Some (?h\<lparr>current_reconnect_delay :=
                 min (current_reconnect_delay ?h * 2 ^ k) (max_reconnect_delay ?h)\<rparr>, w')"
    and s: "sleeps (calls w') = sleeps (calls ?w) @
        map (\<lambda>i. min (current_reconnect_delay ?h * 2 ^ i) (max_reconnect_delay ?h)) [0..<k]"
    by auto
  have c0: "min ?c ?m = ?c" using Suc.prems(6) by simp
  have hh: "?h\<lparr>current_reconnect_delay :=
                 min (current_reconnect_delay ?h * 2 ^ k) (max_reconnect_delay ?h)\<rparr>
            = h\<lparr>current_reconnect_delay := min (?c * 2 ^ Suc k) ?m\<rparr>"
    using capped_double[OF m0, of ?c k] by simp
  have ss: "sleeps (calls w') = sleeps (calls w) @ map (\<lambda>i. min (?c * 2 ^ i) ?m) [0..<Suc k]"
    using s capped_double[OF m0, of ?c] c0
    by (simp add: upt_Suc_shift del: upt_Suc power_Suc)
  show ?case
    unfolding step r hh using ss by blast
qed

subsection \<open>The test suite, replayed on the embedding\<close>

text \<open>
  Cases of tests/test\_transfer.py and tests/test\_mqtt\_handler.py, evaluated on the
  definitions above with the fixtures: the embedding gives what the tests assert.
\<close>

lemma mirror_cmd_test:
  "mirror_cmd test_config ''/remote/movie.mkv'' =
    [''lftp'', ''-u'', ''testuser:testpass'', ''sftp://test.sftp.com/'', ''-e'',
     ''set sftp:auto-confirm yes; mirror -c  --parallel=4 --use-pget-n=8 '' @ [DQUOTE]
       @ ''/remote/movie.mkv'' @ [DQUOTE] @ '' ;quit'']"
  by (simp add: mirror_cmd_def test_config_def HOSTKEYFIX_def str_int_def)

lemma pget_cmd_test:
  "pget_cmd test_config ''/remote/movie.mkv'' =
    [''lftp'', ''-u'', ''testuser:testpass'', ''sftp://test.sftp.com/'', ''-e'',
     ''set sftp:auto-confirm yes; pget -n 4 '' @ [DQUOTE]
       @ ''/remote/movie.mkv'' @ [DQUOTE] @ '' ;quit'']"
  by (simp add: pget_cmd_def test_config_def HOSTKEYFIX_def str_int_def)

lemma basename_test: "basename ''/remote/movie.mkv'' = ''movie.mkv''"
  by (simp add: basename_def)

lemma test_transfer_file_success_mirror:
  "fst (transfer_file test_env test_transfer ''/remote/movie.mkv'' ''hash123'' ''MOV'' world0)
     = Return True
   \<and> calls (snd (transfer_file test_env test_transfer ''/remote/movie.mkv'' ''hash123'' ''MOV''
                   world0))
     = [Isdir ''/downloads/movies'', Chdir ''/downloads/movies'', Which ''lftp'',
        Run (mirror_cmd test_config ''/remote/movie.mkv''), Chmod ''movie.mkv'' 438]"
  by (simp add: transfer_file_def resolve_dest_dir_def test_transfer_def test_type_mapping_def
        test_env_def chdir_def run_lftp_def finish_transfer_def basename_test world0_def Let_def)

lemma test_transfer_file_both_commands_fail:
  "fst (transfer_file both_fail_env test_transfer ''/remote/movie.mkv'' ''hash123'' ''MOV''
          world0)
     = Return False
   \<and> runs (calls (snd (transfer_file both_fail_env test_transfer ''/remote/movie.mkv''
                          ''hash123'' ''MOV'' world0)))
     = [mirror_cmd test_config ''/remote/movie.mkv'', pget_cmd test_config ''/remote/movie.mkv'']"
  by (simp add: transfer_file_def resolve_dest_dir_def test_transfer_def test_type_mapping_def
        both_fail_env_def test_env_def chdir_def run_lftp_def finish_transfer_def world0_def
        Let_def)

lemma test_on_message_valid_event:
  "fst (on_message test_env connected_handler (msg_of valid_event) world0) = Return ()
   \<and> publishes (calls (snd (on_message test_env connected_handler (msg_of valid_event) world0)))
     = [(''Label'', ''hash123'' @ [TAB] @ ''DONE'', 2)]"
proof -
  have t: "r = Return True \<and> publishes (calls v') = publishes (calls v)"
    if "transfer_file test_env test_transfer ''test.mkv'' ''hash123'' ''MOV'' v = (r, v')"
    for v r v'
    using that
      transfer_file_publishes[of test_env test_transfer "''test.mkv''" "''hash123''" "''MOV''" v]
    by (auto simp add: transfer_file_def resolve_dest_dir_def test_transfer_def
          test_type_mapping_def test_env_def chdir_def run_lftp_def finish_transfer_def Let_def)
  have d: "transfer_handler connected_handler = test_transfer"
    "labelling (config connected_handler)" "connected connected_handler"
    by (simp_all add: connected_handler_def test_handler_def MQTTHandler_init_def test_config_def)
  show ?thesis
    by (auto simp: on_message_def msg_of_def decode_valid split_valid d Let_def
          publish_label_event_calls world0_def LABEL_CHANNEL_def ACK_def
          split: prod.splits outcome.splits dest!: t)
qed

subsection \<open>Claims about transfer\_file\<close>

text \<open>
  C7. For every call to transfer\_file where the typecode is absent from the map and the
  map has no ERR key, transfer\_file returns false and makes no call to any collaborator:
  no subprocess is invoked (the trace of calls is the one it started from) and the
  working directory is unchanged.
\<close>

theorem transfer_file_unknown_typecode_no_ERR:
  assumes "type_to_dir ft typecode = None" and "type_to_dir ft ''ERR'' = None"
  shows "fst (transfer_file e ft target hash typecode w) = Return False
       \<and> calls (snd (transfer_file e ft target hash typecode w)) = calls w
       \<and> runs (calls (snd (transfer_file e ft target hash typecode w))) = runs (calls w)
       \<and> cwd (snd (transfer_file e ft target hash typecode w)) = cwd w"
  using assms by (simp add: transfer_file_def resolve_dest_dir_def)

theorem transfer_file_unknown_typecode_no_ERR_witness:
  "type_to_dir test_transfer_no_err ''UNKNOWN'' = None
   \<and> type_to_dir test_transfer_no_err ''ERR'' = None
   \<and> fst (transfer_file test_env test_transfer_no_err ''/remote/unknown.file'' ''hash123''
            ''UNKNOWN'' world0) = Return False
   \<and> runs (calls (snd (transfer_file test_env test_transfer_no_err ''/remote/unknown.file''
                          ''hash123'' ''UNKNOWN'' world0))) = []"
proof -
  have h1: "type_to_dir test_transfer_no_err ''UNKNOWN'' = None"
    by (simp add: test_transfer_no_err_def type_mapping_no_err_def)
  have h2: "type_to_dir test_transfer_no_err ''ERR'' = None"
    by (simp add: test_transfer_no_err_def type_mapping_no_err_def)
  show ?thesis
    using transfer_file_unknown_typecode_no_ERR[OF h1 h2, of test_env
        "''/remote/unknown.file''" "''hash123''" world0] h1 h2
    by (simp add: world0_def)
qed

text \<open>
  C2. For every call to transfer\_file that reaches the transfer-attempt stage (typecode
  resolved, destination directory exists, chdir succeeded, lftp found): the commands run
  are the mirror command alone, or, when the mirror exits nonzero, the mirror command
  followed by exactly one pget command; and transfer\_file returns true if and only if the
  mirror exited with status 0, or it exited nonzero and the pget fallback exited with
  status 0.
\<close>

theorem transfer_file_mirror_then_pget:
  assumes "fst (resolve_dest_dir ft typecode w) = Some dest_dir"
    and "lookup_dir e (cwd w) dest_dir = Some d" and "\<not> chdir_denied e d"
    and "which e ''lftp'' = Some p" and "p \<noteq> []"
  shows "runs (calls (snd (transfer_file e ft target hash typecode w))) =
           runs (calls w) @
             (if exited_nonzero (run e (mirror_cmd (ft_config ft) target))
              then [mirror_cmd (ft_config ft) target, pget_cmd (ft_config ft) target]
              else [mirror_cmd (ft_config ft) target])
       \<and> (fst (transfer_file e ft target hash typecode w) = Return True
            \<longleftrightarrow> exited_zero (run e (mirror_cmd (ft_config ft) target))
              \<or> exited_nonzero (run e (mirror_cmd (ft_config ft) target))
                \<and> exited_zero (run e (pget_cmd (ft_config ft) target)))"
proof -
  let ?m = "mirror_cmd (ft_config ft) target" and ?p = "pget_cmd (ft_config ft) target"
  obtain w5 where w5: "calls w5 = calls w @ [Isdir dest_dir, Chdir dest_dir, Which ''lftp'']"
    and tf: "transfer_file e ft target hash typecode w =
      (case run_lftp e (ft_config ft) target w5 of
         (Raise x, w6) \<Rightarrow> (Raise x, w6)
       | (Return transferred, w6) \<Rightarrow> finish_transfer e target transferred w6)"
    using assms by (rule transfer_file_attempt)
  obtain r w6 where rl: "run_lftp e (ft_config ft) target w5 = (r, w6)"
    by (cases "run_lftp e (ft_config ft) target w5")
  have c6: "calls w6 = calls w5 @ (if exited_nonzero (run e ?m) then [Run ?m, Run ?p] else [Run ?m])"
    using run_lftp_calls[of e "ft_config ft" target w5] rl by simp
  have r: "r = (case run e ?m of
        NotCompleted \<Rightarrow> Raise RunFailure
      | Exited rc out err \<Rightarrow>
          if rc = 0 then Return True
          else (case run e ?p of
                  NotCompleted \<Rightarrow> Raise RunFailure
                | Exited prc pout perr \<Rightarrow> Return (prc = 0)))"
    using run_lftp_result[of e "ft_config ft" target w5] rl by simp
  have trace: "runs (calls (snd (transfer_file e ft target hash typecode w))) =
           runs (calls w) @ (if exited_nonzero (run e ?m) then [?m, ?p] else [?m])"
    by (cases r) (simp_all add: tf rl c6 w5)
  have res: "fst (transfer_file e ft target hash typecode w) = Return True
            \<longleftrightarrow> exited_zero (run e ?m) \<or> exited_nonzero (run e ?m) \<and> exited_zero (run e ?p)"
    unfolding tf rl using r
    by (auto split: run_result.splits if_splits)
  from trace res show ?thesis by simp
qed

theorem transfer_file_mirror_then_pget_witness:
  "fst (resolve_dest_dir test_transfer ''MOV'' world0) = Some ''/downloads/movies''
   \<and> lookup_dir fallback_env (cwd world0) ''/downloads/movies'' = Some ''/downloads/movies''
   \<and> \<not> chdir_denied fallback_env ''/downloads/movies''
   \<and> which fallback_env ''lftp'' = Some ''/usr/bin/lftp''
   \<and> exited_nonzero (run fallback_env (mirror_cmd test_config ''/remote/movie.mkv''))
   \<and> runs (calls (snd (transfer_file fallback_env test_transfer ''/remote/movie.mkv''
                          ''hash123'' ''MOV'' world0))) =
       [mirror_cmd test_config ''/remote/movie.mkv'', pget_cmd test_config ''/remote/movie.mkv'']
   \<and> fst (transfer_file fallback_env test_transfer ''/remote/movie.mkv''
            ''hash123'' ''MOV'' world0) = Return True"
proof -
  note h1 = test_resolve_MOV
  have h2: "lookup_dir fallback_env (cwd world0) ''/downloads/movies'' = Some ''/downloads/movies''"
    by (simp add: fallback_env_def test_env_def)
  have h3: "\<not> chdir_denied fallback_env ''/downloads/movies''"
    by (simp add: fallback_env_def test_env_def)
  have h4: "which fallback_env ''lftp'' = Some ''/usr/bin/lftp''"
    by (simp add: fallback_env_def test_env_def)
  have h5: "''/usr/bin/lftp'' \<noteq> []" by simp
  have m: "run fallback_env (mirror_cmd test_config ''/remote/movie.mkv'') =
             Exited 1 ''Mirror failed'' []"
    by (simp add: fallback_env_def test_env_def)
  have p: "run fallback_env (pget_cmd test_config ''/remote/movie.mkv'') =
             Exited 0 ''Success'' []"
    using test_mirror_ne_pget by (simp add: fallback_env_def test_env_def)
  have c: "ft_config test_transfer = test_config" "calls world0 = []"
    by (simp_all add: test_transfer_def world0_def)
  show ?thesis
    using transfer_file_mirror_then_pget[OF h1 h2 h3 h4 h5, of "''/remote/movie.mkv''"
        "''hash123''"] h1 h2 h3 h4
    by (simp add: m p c)
qed

text \<open>
  C10. Every call to transfer\_file that succeeds in changing directory to the
  destination returns, or raises, with the working directory set to that destination: the
  directory its path named when the call started. The call makes one chdir and no second
  one, so the directory it started from is not restored, whatever the outcome.
\<close>

theorem transfer_file_leaves_cwd_at_destination:
  assumes "fst (resolve_dest_dir ft typecode w) = Some dest_dir"
    and "lookup_dir e (cwd w) dest_dir = Some d" and "\<not> chdir_denied e d"
  shows "cwd (snd (transfer_file e ft target hash typecode w)) = d
       \<and> chdirs (calls (snd (transfer_file e ft target hash typecode w))) =
           chdirs (calls w) @ [dest_dir]"
proof -
  let ?w = "logm DEBUG ''Starting transfer - target: %s, hash: %s, typecode: %s'' w"
  from assms(1) resolve_fst_indep[of ft typecode w ?w]
  have "fst (resolve_dest_dir ft typecode ?w) = Some dest_dir" by simp
  then obtain w1 where r: "resolve_dest_dir ft typecode ?w = (Some dest_dir, w1)"
    and f: "cwd w1 = cwd w" "calls w1 = calls w"
    by (cases rule: resolve_cases[of ft typecode ?w]) auto
  show ?thesis
    by (auto simp: transfer_file_def r f assms chdir_def Let_def
          split: prod.splits outcome.splits dest!: run_lftp_pair)
qed

theorem transfer_file_leaves_cwd_at_destination_witness:
  "fst (resolve_dest_dir test_transfer ''MOV'' world0) = Some ''/downloads/movies''
   \<and> lookup_dir both_fail_env (cwd world0) ''/downloads/movies'' = Some ''/downloads/movies''
   \<and> \<not> chdir_denied both_fail_env ''/downloads/movies''
   \<and> cwd world0 = ''/opt/q4d''
   \<and> cwd (snd (transfer_file both_fail_env test_transfer ''/remote/movie.mkv'' ''hash123''
                 ''MOV'' world0)) = ''/downloads/movies''
   \<and> chdirs (calls (snd (transfer_file both_fail_env test_transfer ''/remote/movie.mkv''
                            ''hash123'' ''MOV'' world0))) = [''/downloads/movies'']"
proof -
  note h1 = test_resolve_MOV
  have h2: "lookup_dir both_fail_env (cwd world0) ''/downloads/movies'' = Some ''/downloads/movies''"
    by (simp add: both_fail_env_def test_env_def)
  have h3: "\<not> chdir_denied both_fail_env ''/downloads/movies''"
    by (simp add: both_fail_env_def test_env_def)
  have c: "cwd world0 = ''/opt/q4d''" "calls world0 = []"
    by (simp_all add: world0_def)
  show ?thesis
    using transfer_file_leaves_cwd_at_destination[OF h1 h2 h3, of "''/remote/movie.mkv''"
        "''hash123''"] h1 h2 h3
    by (simp add: c)
qed

text \<open>
  C6. For every call to transfer\_file where the typecode is absent from the map and the
  key ERR is present, the lookup gives the directory of the ERR entry, not the failure
  branch, and the transfer goes on with it: the first call transfer\_file makes is the
  check that this directory exists.
\<close>

theorem transfer_file_falls_back_to_ERR:
  assumes "type_to_dir ft typecode = None" and "type_to_dir ft ''ERR'' = Some d"
  shows "fst (resolve_dest_dir ft typecode w) = Some d
       \<and> (\<exists>cs. calls (snd (transfer_file e ft target hash typecode w)) =
                 calls w @ Isdir d # cs)"
proof -
  have "fst (resolve_dest_dir ft typecode w) = Some d"
    using assms by (simp add: resolve_dest_dir_def)
  then show ?thesis
    using transfer_file_first_call by blast
qed

theorem transfer_file_falls_back_to_ERR_witness:
  "type_to_dir test_transfer ''UNKNOWN'' = None
   \<and> type_to_dir test_transfer ''ERR'' = Some ''/downloads/errors''
   \<and> fst (resolve_dest_dir test_transfer ''UNKNOWN'' world0) = Some ''/downloads/errors''
   \<and> take 1 (calls (snd (transfer_file test_env test_transfer ''/remote/unknown.file''
                          ''hash123'' ''UNKNOWN'' world0))) = [Isdir ''/downloads/errors'']"
proof -
  have h1: "type_to_dir test_transfer ''UNKNOWN'' = None"
    by (simp add: test_transfer_def test_type_mapping_def)
  have h2: "type_to_dir test_transfer ''ERR'' = Some ''/downloads/errors''"
    by (simp add: test_transfer_def test_type_mapping_def)
  have c: "calls world0 = []" by (simp add: world0_def)
  show ?thesis
    using transfer_file_falls_back_to_ERR[OF h1 h2, of world0 test_env
        "''/remote/unknown.file''" "''hash123''"] h1 h2
    by (auto simp: c)
qed



subsection \<open>Claims about the message handler\<close>

text \<open>
  C5. For every payload that decodes and splits into fewer than 3 tab-delimited fields,
  on\_message returns normally and leaves the world as it was but for four log lines, the
  error line "Malformed event" among them: it makes no call to any collaborator, so no
  transfer is started and no acknowledgment is published.
\<close>

theorem on_message_malformed_discarded:
  assumes "decode (payload msg) = Some s" and "length (split_on TAB s) < 3"
  shows "on_message e h msg w =
          (Return (),
           w\<lparr>logs := logs w @
              [(INFO, ''Event received: %s''),
               (DEBUG, ''Message topic: %s, QoS: %d, retain: %s''),
               (ERROR, ''Malformed event: %s''),
               (DEBUG, ''Expected at least 3 fields, got %d: %s'')]\<rparr>)
       \<and> calls (snd (on_message e h msg w)) = calls w
       \<and> cwd (snd (on_message e h msg w)) = cwd w"
  using assms by (simp add: on_message_def Let_def logm_def)

theorem on_message_malformed_discarded_witness:
  "decode (payload (msg_of malformed_event)) = Some malformed_event
   \<and> length (split_on TAB malformed_event) = 2
   \<and> fst (on_message test_env connected_handler (msg_of malformed_event) world0) = Return ()
   \<and> calls (snd (on_message test_env connected_handler (msg_of malformed_event) world0)) = []
   \<and> cwd (snd (on_message test_env connected_handler (msg_of malformed_event) world0))
       = ''/opt/q4d''"
proof -
  have h1: "decode (payload (msg_of malformed_event)) = Some malformed_event"
    by (simp add: msg_of_def decode_malformed)
  have h2: "length (split_on TAB malformed_event) < 3"
    by (simp add: split_malformed)
  show ?thesis
    using on_message_malformed_discarded[OF h1 h2, of test_env connected_handler world0] h1
    by (simp add: split_malformed world0_def)
qed

text \<open>
  C4. For every handled message with at least 3 fields: when the second field, the
  content hash, is the string "NotUsed", on\_message publishes nothing, whatever the
  labelling flag; when the labelling flag is off, it publishes nothing, whatever the hash;
  so a message whose handling published something had labelling on and a hash other than
  "NotUsed".
\<close>

theorem on_message_ack_only_when_labelling_and_hash:
  assumes "decode (payload msg) = Some s" and "3 \<le> length (split_on TAB s)"
  shows "(split_on TAB s ! 1 = ''NotUsed''
            \<longrightarrow> publishes (calls (snd (on_message e h msg w))) = publishes (calls w))
       \<and> (\<not> labelling (config h)
            \<longrightarrow> publishes (calls (snd (on_message e h msg w))) = publishes (calls w))
       \<and> (publishes (calls (snd (on_message e h msg w))) \<noteq> publishes (calls w)
            \<longrightarrow> labelling (config h) \<and> split_on TAB s ! 1 \<noteq> ''NotUsed'')"
proof -
  let ?ev = "split_on TAB s"
  have skip: "publishes (calls (snd (on_message e h msg w))) = publishes (calls w)"
    if "\<not> (labelling (config h) \<and> ?ev ! 1 \<noteq> ''NotUsed'')"
  proof -
    have tf: "publishes (calls v') = publishes (calls v)"
      if "transfer_file e ft t hs tc v = (r, v')" for ft t hs tc v r v'
      using transfer_file_publishes[of e ft t hs tc v] that by simp
    show ?thesis
      using assms \<open>\<not> (labelling (config h) \<and> ?ev ! 1 \<noteq> ''NotUsed'')\<close>
      by (auto simp: on_message_def Let_def split: prod.splits outcome.splits dest!: tf)
  qed
  then show ?thesis by blast
qed

theorem on_message_ack_only_when_labelling_and_hash_witness:
  "decode (payload (msg_of notused_event)) = Some notused_event
   \<and> 3 \<le> length (split_on TAB notused_event)
   \<and> split_on TAB notused_event ! 1 = ''NotUsed''
   \<and> labelling (config connected_handler) \<and> connected connected_handler
   \<and> publishes (calls (snd (on_message test_env connected_handler (msg_of notused_event)
                               world0))) = []"
proof -
  have h1: "decode (payload (msg_of notused_event)) = Some notused_event"
    by (simp add: msg_of_def decode_notused)
  have h2: "3 \<le> length (split_on TAB notused_event)"
    by (simp add: split_notused)
  have c: "labelling (config connected_handler)" "connected connected_handler"
    by (simp_all add: connected_handler_def test_handler_def MQTTHandler_init_def test_config_def)
  show ?thesis
    using on_message_ack_only_when_labelling_and_hash[OF h1 h2, of test_env connected_handler
        world0] h1 h2 c
    by (simp add: split_notused world0_def)
qed

text \<open>
  C8, as the code has it. For every call to publish\_label\_event while the connected flag
  is false, the transport's publish is not called (the call makes no call to any
  collaborator at all, so it waits for nothing), one warning is logged, and the call
  returns at once. What it returns is \<^verbatim>\<open>None\<close>, as on every other path.
\<close>

theorem publish_label_event_disconnected:
  assumes "\<not> connected h"
  shows "publish_label_event e h hash success w =
           ((), logm WARNING ''Cannot publish label event - MQTT not connected'' w)
       \<and> calls (snd (publish_label_event e h hash success w)) = calls w
       \<and> logs (snd (publish_label_event e h hash success w)) =
           logs w @ [(WARNING, ''Cannot publish label event - MQTT not connected'')]"
  using assms by (simp add: publish_label_event_def)

theorem publish_label_event_disconnected_witness:
  "\<not> connected test_handler
   \<and> calls (snd (publish_label_event test_env test_handler ''hash123'' True world0)) = []
   \<and> logs (snd (publish_label_event test_env test_handler ''hash123'' True world0)) =
        [(WARNING, ''Cannot publish label event - MQTT not connected'')]"
proof -
  have h: "\<not> connected test_handler"
    by (simp add: test_handler_def MQTTHandler_init_def)
  show ?thesis
    using publish_label_event_disconnected[OF h, of test_env "''hash123''" True world0] h
    by (simp add: world0_def)
qed

text \<open>
  C8 as the specification states it asks for a failure indicator as the return value.
  The value returned while disconnected, when nothing is published, is the value
  returned while connected, when the acknowledgment is published: the caller cannot tell
  the two apart.
\<close>

theorem publish_label_event_no_failure_indicator:
  "fst (publish_label_event test_env test_handler ''hash123'' True world0)
     = fst (publish_label_event test_env connected_handler ''hash123'' True world0)
   \<and> publishes (calls (snd (publish_label_event test_env test_handler ''hash123'' True
                               world0))) = []
   \<and> publishes (calls (snd (publish_label_event test_env connected_handler ''hash123'' True
                               world0)))
       = [(''Label'', ''hash123'' @ [TAB] @ ''DONE'', 2)]"
  by (simp add: publish_label_event_calls connected_handler_def test_handler_def
        MQTTHandler_init_def world0_def LABEL_CHANNEL_def ACK_def)




subsection \<open>Claims about reconnection\<close>

text \<open>
  C3. For every run of the retry loop of a running, disconnected handler in which
  connecting raises \<open>k\<close> times and then returns, with a backoff between 0 and the
  maximum at the start (5 and 60 after \<^verbatim>\<open>__init__\<close>): the loop returns; each failed
  attempt has slept for the backoff of that moment, which is the starting backoff doubled
  once per earlier failure and capped at the maximum; the backoff it leaves is doubled
  \<open>k\<close> times and capped, so it never exceeds the maximum; and on\_connect with result
  code 0 sets the backoff to the initial value, from this and from every other state.
\<close>

theorem backoff_doubles_capped_and_resets:
  assumes "running h" and "\<not> connected h"
    and "\<forall>i<k. connect_raises e (n_connects (calls w) + i)"
    and "\<not> connect_raises e (n_connects (calls w) + k)"
    and "0 \<le> current_reconnect_delay h"
    and "current_reconnect_delay h \<le> max_reconnect_delay h"
  shows "(\<exists>h' w'. connect_with_retry e h w = Some (h', w')
           \<and> sleeps (calls w') =
               sleeps (calls w) @
               map (\<lambda>i. min (current_reconnect_delay h * 2 ^ i) (max_reconnect_delay h)) [0..<k]
           \<and> current_reconnect_delay h' =
               min (current_reconnect_delay h * 2 ^ k) (max_reconnect_delay h)
           \<and> current_reconnect_delay h' \<le> max_reconnect_delay h
           \<and> max_reconnect_delay h' = max_reconnect_delay h
           \<and> reconnect_delay h' = reconnect_delay h
           \<and> current_reconnect_delay (fst (on_connect e h' 0 w')) = reconnect_delay h)
       \<and> (\<forall>g v. current_reconnect_delay (fst (on_connect e g 0 v)) = reconnect_delay g)"
proof -
  have reset: "current_reconnect_delay (fst (on_connect e g 0 v)) = reconnect_delay g" for g v
    by (simp add: on_connect_def Let_def)
  from connect_with_retry_backoff[OF assms]
  obtain w' where "connect_with_retry e h w =
                 Some (h\<lparr>current_reconnect_delay :=
                          min (current_reconnect_delay h * 2 ^ k) (max_reconnect_delay h)\<rparr>, w')"
    and "sleeps (calls w') =
                 sleeps (calls w) @
                 map (\<lambda>i. min (current_reconnect_delay h * 2 ^ i) (max_reconnect_delay h)) [0..<k]"
    by blast
  then show ?thesis
    using reset by (intro conjI exI[of _ "h\<lparr>current_reconnect_delay :=
                          min (current_reconnect_delay h * 2 ^ k) (max_reconnect_delay h)\<rparr>"]
        exI[of _ w'] allI) simp_all
qed

theorem backoff_doubles_capped_and_resets_witness:
  "running test_handler \<and> \<not> connected test_handler
   \<and> connect_raises test_env 0 \<and> connect_raises test_env 1 \<and> connect_raises test_env 2
   \<and> \<not> connect_raises test_env 3
   \<and> current_reconnect_delay test_handler = 5 \<and> max_reconnect_delay test_handler = 60
   \<and> (\<exists>h' w'. connect_with_retry test_env test_handler world0 = Some (h', w')
         \<and> sleeps (calls w') = [5, 10, 20]
         \<and> current_reconnect_delay h' = 40
         \<and> current_reconnect_delay (fst (on_connect test_env h' 0 w')) = 5)"
proof -
  have h1: "running test_handler" and h2: "\<not> connected test_handler"
    and c: "current_reconnect_delay test_handler = 5" "max_reconnect_delay test_handler = 60"
      "reconnect_delay test_handler = 5"
    by (simp_all add: test_handler_def MQTTHandler_init_def)
  have n: "n_connects (calls world0) = 0" "sleeps (calls world0) = []"
    by (simp_all add: world0_def)
  have h3: "\<forall>i<3. connect_raises test_env (n_connects (calls world0) + i)"
    by (simp add: n test_env_def)
  have h4: "\<not> connect_raises test_env (n_connects (calls world0) + 3)"
    by (simp add: n test_env_def)
  have h5: "0 \<le> current_reconnect_delay test_handler"
    and h6: "current_reconnect_delay test_handler \<le> max_reconnect_delay test_handler"
    by (simp_all add: c)
  have l: "[0..<3] = [0, 1, 2]" by (simp add: upt_rec)
  have r: "connect_raises test_env 0" "connect_raises test_env 1" "connect_raises test_env 2"
    "\<not> connect_raises test_env 3"
    by (simp_all add: test_env_def)
  from backoff_doubles_capped_and_resets[OF h1 h2 h3 h4 h5 h6]
  show ?thesis
    using h1 h2 r by (auto simp: c n l)
qed

end
